theory Spec2Isabelle
  imports Main
begin

section \<open>JSON values and objects\<close>

text \<open>
  The script \<^verbatim>\<open>scripts/fetch-meetup-data.ts\<close> works on plain JSON data. A JSON value is
  modelled by \<open>jval\<close>; numbers occur only as opaque values (the meetup id), so integers
  are enough. A JavaScript object is the list of its own properties in the order
  \<^verbatim>\<open>Object.entries\<close> enumerates them; an object has every key once, which
  \<open>isObject\<close> states. Reading an own property is \<open>getProp\<close>; creating or
  overwriting an own data property is \<open>setProp\<close>: an existing key keeps its place, a new
  key goes to the end. The numeric reordering of integer-like keys is outside the model;
  no statement below depends on the position of a key in a result.
\<close>

datatype jval =
    JNull
  | JBool bool
  | JNum int
  | JStr string
  | JArr "jval list"
  | JObj "(string \<times> jval) list"

type_synonym obj = "(string \<times> jval) list"

definition isObject :: "obj \<Rightarrow> bool" where
  "isObject ob = distinct (map fst ob)"

definition getProp :: "obj \<Rightarrow> string \<Rightarrow> jval option" where
  "getProp ob k = map_of ob k"

fun setProp :: "string \<Rightarrow> 'v \<Rightarrow> (string \<times> 'v) list \<Rightarrow> (string \<times> 'v) list" where
  "setProp k v [] = [(k, v)]"
| "setProp k v ((k', v') # ps) =
     (if k' = k then (k, v) # ps else (k', v') # setProp k v ps)"

text \<open>
  The plain assignment \<^verbatim>\<open>obj[key] = value\<close> on an object that began as \<^verbatim>\<open>{}\<close>.
  For every key but \<^verbatim>\<open>__proto__\<close> it writes the own property. The key
  \<^verbatim>\<open>__proto__\<close> is an accessor of \<^verbatim>\<open>Object.prototype\<close>: as long as the object
  inherits it, the assignment calls the setter, which creates no own property and, when
  the value is an object or \<^verbatim>\<open>null\<close>, makes the value the prototype. The state
  carries, next to the own properties, whether the accessor is still inherited: it is no
  longer after the prototype has become \<^verbatim>\<open>null\<close> or an object with an own property
  \<^verbatim>\<open>__proto__\<close>, and from then on the assignment writes an own property
  \<^verbatim>\<open>__proto__\<close> like any other.
\<close>

definition setterKeepsAccessor :: "jval \<Rightarrow> bool" where
  "setterKeepsAccessor v =
     (case v of
        JNull \<Rightarrow> False
      | JObj props \<Rightarrow> ''__proto__'' \<notin> fst ` set props
      | _ \<Rightarrow> True)"

definition assignProp ::
  "('v \<Rightarrow> bool) \<Rightarrow> string \<Rightarrow> 'v \<Rightarrow> bool \<times> (string \<times> 'v) list \<Rightarrow> bool \<times> (string \<times> 'v) list" where
  "assignProp keeps k v st =
     (case st of
        (inherits, ob) \<Rightarrow>
          if k = ''__proto__'' \<and> inherits then (keeps v, ob) else (inherits, setProp k v ob))"

text \<open>
  \<^verbatim>\<open>Object.fromEntries(entries)\<close>: every entry is defined as an own property of a fresh
  object, in order (no setter is called).
\<close>

definition fromEntries :: "(string \<times> jval) list \<Rightarrow> obj" where
  "fromEntries es = fold (\<lambda>(k, v) acc. setProp k v acc) es []"

text \<open>
  The object spread \<^verbatim>\<open>{ ...a, ...b }\<close>: the own properties of \<open>a\<close>, then those of
  \<open>b\<close>, are defined as own properties of a fresh object.
\<close>

definition spread :: "obj \<Rightarrow> obj \<Rightarrow> obj" where
  "spread a b = fold (\<lambda>(k, v) acc. setProp k v acc) b (fold (\<lambda>(k, v) acc. setProp k v acc) a [])"

text \<open>A value of type \<^verbatim>\<open>string | null\<close> as a JSON value.\<close>

definition jstr :: "string option \<Rightarrow> jval" where
  "jstr s = (case s of None \<Rightarrow> JNull | Some x \<Rightarrow> JStr x)"

section \<open>The remote data (interfaces \<^verbatim>\<open>Speaker\<close> to \<^verbatim>\<open>Meetup\<close>)\<close>

text \<open>
  The records follow the TypeScript interfaces. A field the code tests before use
  (\<^verbatim>\<open>Session_id\<close>, \<^verbatim>\<open>speakers\<close>, \<^verbatim>\<open>Sponsor_id\<close>, \<^verbatim>\<open>Logo\<close>,
  \<^verbatim>\<open>github_account\<close>) is an option: \<open>None\<close> is JavaScript's \<^verbatim>\<open>null\<close> or
  \<^verbatim>\<open>undefined\<close>.
\<close>

record Speaker =
  speaker_id :: string
  speaker_name :: string
  github_account :: "string option"

record SessionData =
  session_title :: string
  session_speakers :: "Speaker option"

record Session =
  session_num :: int
  Session_id :: "SessionData option"

record LogoFile =
  filename_disk :: string

record SponsorData =
  sponsor_data_id :: string
  Name :: string
  Logo :: "LogoFile option"

record Sponsor =
  sponsor_num :: int
  Sponsor_id :: "SponsorData option"

record Meetup =
  meetup_id :: int
  title :: string
  Date :: string
  Venue :: string
  Location :: string
  Time :: string
  sessions :: "Session list"
  sponsors :: "Sponsor list"

section \<open>The produced data and the override document\<close>

text \<open>
  \<^verbatim>\<open>MeetupData\<close>: the meetup section, the speakers and the sponsor (or \<^verbatim>\<open>null\<close>).
  The sections are objects, since an override may add any key to them.
\<close>

record MeetupData =
  meetup :: obj
  speakers :: "obj list"
  sponsor :: "obj option"

text \<open>
  \<^verbatim>\<open>MeetupDataOverride\<close>: three optional sections; \<open>None\<close> is an absent (falsy)
  section. As the interface declares, a section is an object, and the speakers section
  maps a speaker name to an override object. Field values are any JSON value,
  \<open>JNull\<close> among them.
\<close>

record MeetupDataOverride =
  ov_meetup :: "obj option"
  ov_speakers :: "(string \<times> obj) list option"
  ov_sponsor :: "obj option"

record Config =
  meetupId :: int
  speakerExtraFields :: "string list"

section \<open>Extraction\<close>

text \<open>\<^verbatim>\<open>getGithubAvatar\<close>: \<^verbatim>\<open>!username\<close> holds for \<^verbatim>\<open>null\<close> and for the empty string.\<close>

definition getGithubAvatar :: "string option \<Rightarrow> string option" where
  "getGithubAvatar username =
     (case username of
        None \<Rightarrow> None
      | Some u \<Rightarrow> if u = [] then None else Some (''https://github.com/'' @ u @ ''.png''))"

definition getSponsorLogoUrl :: "string \<Rightarrow> string" where
  "getSponsorLogoUrl filename = ''https://frontend.mu/assets/'' @ filename"

text \<open>\<^verbatim>\<open>x || null\<close> on a \<^verbatim>\<open>string | undefined\<close>: the empty string is falsy as well.\<close>

definition orNull :: "string option \<Rightarrow> string option" where
  "orNull x = (case x of None \<Rightarrow> None | Some s \<Rightarrow> if s = [] then None else Some s)"

text \<open>The filter predicate \<^verbatim>\<open>session.Session_id && session.Session_id.speakers\<close>.\<close>

definition hasSpeaker :: "Session \<Rightarrow> bool" where
  "hasSpeaker session =
     (case Session_id session of
        None \<Rightarrow> False
      | Some sessionData \<Rightarrow> session_speakers sessionData \<noteq> None)"

text \<open>The object literal the \<^verbatim>\<open>map\<close> callback builds from a session data and its speaker.\<close>

definition speakerObject :: "SessionData \<Rightarrow> Speaker \<Rightarrow> obj" where
  "speakerObject sessionData speaker =
     [(''name'', JStr (speaker_name speaker)),
      (''talkTitle'', JStr (session_title sessionData)),
      (''githubUsername'', jstr (orNull (github_account speaker))),
      (''githubAvatar'', jstr (getGithubAvatar (orNull (github_account speaker))))]"

text \<open>
  The \<^verbatim>\<open>map\<close> callback. It reads \<^verbatim>\<open>session.Session_id.speakers\<close> without a test;
  the filter before it lets only sessions with both through.
\<close>

definition speakerOfSession :: "Session \<Rightarrow> obj" where
  "speakerOfSession session =
     (let sessionData = the (Session_id session);
          speaker = the (session_speakers sessionData)
      in speakerObject sessionData speaker)"

definition extractSpeakers :: "Meetup \<Rightarrow> obj list" where
  "extractSpeakers m = map speakerOfSession (filter hasSpeaker (sessions m))"

text \<open>\<^verbatim>\<open>meetup.sponsors[0]\<close> is \<^verbatim>\<open>undefined\<close> on an empty array.\<close>

definition firstSponsor :: "Meetup \<Rightarrow> Sponsor option" where
  "firstSponsor m = (if sponsors m = [] then None else Some (sponsors m ! 0))"

definition extractSponsor :: "Meetup \<Rightarrow> obj option" where
  "extractSponsor m =
     (case firstSponsor m of
        None \<Rightarrow> None
      | Some first \<Rightarrow>
          (case Sponsor_id first of
             None \<Rightarrow> None
           | Some sd \<Rightarrow>
               Some [(''name'', JStr (Name sd)),
                     (''logo'', (case Logo sd of
                                  None \<Rightarrow> JNull
                                | Some l \<Rightarrow> JStr (getSponsorLogoUrl (filename_disk l))))]))"

text \<open>The initial data structure of \<^verbatim>\<open>fetchMeetupData\<close>, before any override.\<close>

definition extractMeetupData :: "Meetup \<Rightarrow> MeetupData" where
  "extractMeetupData m =
     \<lparr> meetup = [(''id'', JNum (meetup_id m)),
                 (''title'', JStr (title m)),
                 (''date'', JStr (Date m)),
                 (''venue'', JStr (Venue m)),
                 (''location'', JStr (Location m)),
                 (''time'', JStr (Time m))],
       speakers = extractSpeakers m,
       sponsor = extractSponsor m \<rparr>"

section \<open>Applying overrides\<close>

definition removeNulls :: "obj \<Rightarrow> obj" where
  "removeNulls ob = fromEntries (filter (\<lambda>(_, v). v \<noteq> JNull) ob)"

definition normalizedKey :: "string \<Rightarrow> string" where
  "normalizedKey key = (if key = ''jobtitle'' then ''jobTitle'' else key)"

text \<open>
  The loop assigns \<^verbatim>\<open>normalized[normalizedKey] = value\<close> for every entry, starting from
  \<^verbatim>\<open>{}\<close>; the result is read through \<^verbatim>\<open>Object.entries\<close>, so only its own
  properties count.
\<close>

definition normalizeFieldNames :: "obj \<Rightarrow> obj" where
  "normalizeFieldNames ob =
     snd (fold (\<lambda>(key, value) normalized.
                  assignProp setterKeepsAccessor (normalizedKey key) value normalized)
            ob (True, []))"

text \<open>
  \<^verbatim>\<open>speaker.name\<close> as a property key. \<^verbatim>\<open>MeetupData\<close> declares the name a string and
  the extraction always writes one. JavaScript would turn any other value into a key by
  string conversion; the model does not cover that and looks no override up then, and no
  statement below is about such a speaker unless it holds whatever the lookup gives.
\<close>

definition speakerName :: "obj \<Rightarrow> string option" where
  "speakerName speaker =
     (case getProp speaker ''name'' of Some (JStr n) \<Rightarrow> Some n | _ \<Rightarrow> None)"

text \<open>The callback of \<^verbatim>\<open>data.speakers.map\<close> in \<^verbatim>\<open>applyOverrides\<close>.\<close>

definition overrideSpeaker :: "(string \<times> obj) list \<Rightarrow> obj \<Rightarrow> obj" where
  "overrideSpeaker speakerOverrides speaker =
     (case speakerName speaker of
        None \<Rightarrow> speaker
      | Some n \<Rightarrow>
          (case map_of speakerOverrides n of
             None \<Rightarrow> speaker
           | Some override \<Rightarrow>
               (let normalizedOverride = normalizeFieldNames override;
                    validOverrides = removeNulls normalizedOverride
                in if validOverrides \<noteq> [] then spread speaker validOverrides else speaker)))"

definition applyOverrides :: "MeetupData \<Rightarrow> MeetupDataOverride option \<Rightarrow> MeetupData" where
  "applyOverrides data overrides =
     (case overrides of
        None \<Rightarrow> data
      | Some ov \<Rightarrow>
          (let data1 =
                 (case ov_meetup ov of
                    None \<Rightarrow> data
                  | Some mo \<Rightarrow>
                      (let validOverrides = removeNulls mo
                       in if validOverrides \<noteq> []
                          then data\<lparr>meetup := spread (meetup data) validOverrides\<rparr>
                          else data));
               data2 =
                 (case ov_speakers ov of
                    None \<Rightarrow> data1
                  | Some so \<Rightarrow> data1\<lparr>speakers := map (overrideSpeaker so) (speakers data1)\<rparr>);
               data3 =
                 (case ov_sponsor ov of
                    None \<Rightarrow> data2
                  | Some spo \<Rightarrow>
                      (case sponsor data2 of
                         None \<Rightarrow> data2
                       | Some s \<Rightarrow>
                           (let validOverrides = removeNulls spo
                            in if validOverrides \<noteq> []
                               then data2\<lparr>sponsor := Some (spread s validOverrides)\<rparr>
                               else data2)))
           in data3))"

section \<open>The override file\<close>

text \<open>
  The override file \<^verbatim>\<open>meetup-data.override.json\<close> is the only file the script reads
  back: its state is \<open>None\<close> (no file) or the content. \<^verbatim>\<open>JSON.parse\<close> and
  \<^verbatim>\<open>JSON.stringify\<close> belong to the platform and are parameters; a parse either throws
  a syntax error or yields a document or \<^verbatim>\<open>null\<close>.
\<close>

datatype 'a parsed = SyntaxError | Parsed 'a

type_synonym parser = "string \<Rightarrow> MeetupDataOverride option parsed"

type_synonym printer = "MeetupDataOverride \<Rightarrow> string"

text \<open>\<^verbatim>\<open>speakerTemplate[field] = null\<close> for every extra field, starting from \<^verbatim>\<open>{}\<close>.\<close>

definition speakerTemplate :: "string list \<Rightarrow> obj" where
  "speakerTemplate extraFields =
     snd (fold (\<lambda>field t. assignProp setterKeepsAccessor field JNull t) extraFields (True, []))"

text \<open>
  The \<^verbatim>\<open>template\<close> object: \<^verbatim>\<open>acc[name] = { ...speakerTemplate }\<close> for every name,
  starting from \<^verbatim>\<open>{}\<close>. What is written, through \<^verbatim>\<open>JSON.stringify\<close>, are the own
  properties.
\<close>

definition overrideTemplate :: "string list \<Rightarrow> string list \<Rightarrow> MeetupDataOverride" where
  "overrideTemplate names extraFields =
     \<lparr> ov_meetup = Some [],
       ov_speakers =
         Some (snd (fold (\<lambda>name acc.
                            assignProp (\<lambda>entry. setterKeepsAccessor (JObj entry)) name
                              (spread [] (speakerTemplate extraFields)) acc)
                      names (True, []))),
       ov_sponsor = Some [] \<rparr>"

text \<open>
  \<^verbatim>\<open>createOverrideTemplate\<close> returns the new state of the override file: an existing
  file is left alone, otherwise the printed template is written.
\<close>

definition createOverrideTemplate ::
  "printer \<Rightarrow> string list \<Rightarrow> string list \<Rightarrow> string option \<Rightarrow> string option" where
  "createOverrideTemplate stringify names extraFields file =
     (case file of
        Some content \<Rightarrow> Some content
      | None \<Rightarrow> Some (stringify (overrideTemplate names extraFields)))"

text \<open>
  \<^verbatim>\<open>readOverrides\<close>: no file gives \<^verbatim>\<open>null\<close>; the \<^verbatim>\<open>catch\<close> turns a failed
  parse into \<^verbatim>\<open>null\<close> as well.
\<close>

definition readOverrides :: "parser \<Rightarrow> string option \<Rightarrow> MeetupDataOverride option" where
  "readOverrides parse file =
     (case file of
        None \<Rightarrow> None
      | Some content \<Rightarrow>
          (case parse content of
             SyntaxError \<Rightarrow> None
           | Parsed overrides \<Rightarrow> overrides))"

section \<open>The run\<close>

text \<open>
  \<^verbatim>\<open>fetchMeetupData\<close> from the point where the three collections have been fetched:
  it finds the meetup, extracts the data, creates the override template, reads and applies
  the overrides and saves the result. The model returns the state of the override file and
  the data saved to \<^verbatim>\<open>meetup-data.json\<close>, or the error thrown. \<open>meetupId\<close> is the
  number \<^verbatim>\<open>parseInt\<close> reads from the configuration. Writing the slide files, which
  follows, changes neither.
\<close>

datatype error = MeetupNotFound int

text \<open>
  \<^verbatim>\<open>speakers.map(s => s.name)\<close>. Every extracted speaker has a string name, so the
  second branch (a missing name as property key) is never taken in the run.
\<close>

definition speakerNames :: "obj list \<Rightarrow> string list" where
  "speakerNames sps =
     map (\<lambda>s. (case speakerName s of Some n \<Rightarrow> n | None \<Rightarrow> ''undefined'')) sps"

record Saved =
  overrideFile :: "string option"
  meetupData :: MeetupData

definition fetchMeetupData ::
  "parser \<Rightarrow> printer \<Rightarrow> Config \<Rightarrow> Meetup list \<Rightarrow> string option \<Rightarrow> error + Saved" where
  "fetchMeetupData parse stringify config meetupsData file =
     (case find (\<lambda>m. meetup_id m = meetupId config) meetupsData of
        None \<Rightarrow> Inl (MeetupNotFound (meetupId config))
      | Some m \<Rightarrow>
          (let data = extractMeetupData m;
               file1 = createOverrideTemplate stringify (speakerNames (speakers data))
                         (speakerExtraFields config) file;
               overrides = readOverrides parse file1
           in Inr \<lparr> overrideFile = file1, meetupData = applyOverrides data overrides \<rparr>))"

section \<open>Properties stated about the data\<close>


text \<open>The fields of a speaker override under their normalized names.\<close>

definition renamedFields :: "obj \<Rightarrow> obj" where
  "renamedFields ob = map (\<lambda>(k, v). (normalizedKey k, v)) ob"

definition nullOnly :: "obj \<Rightarrow> bool" where
  "nullOnly ob = list_all (\<lambda>(k, v). v = JNull) ob"

text \<open>An override document all of whose field values are \<^verbatim>\<open>null\<close>.\<close>

definition onlyNulls :: "MeetupDataOverride \<Rightarrow> bool" where
  "onlyNulls ov =
     ((case ov_meetup ov of None \<Rightarrow> True | Some mo \<Rightarrow> nullOnly mo) \<and>
      (case ov_speakers ov of None \<Rightarrow> True | Some so \<Rightarrow> list_all (\<lambda>(n, ob). nullOnly ob) so) \<and>
      (case ov_sponsor ov of None \<Rightarrow> True | Some spo \<Rightarrow> nullOnly spo))"

text \<open>
  Avatar consistency of one speaker: both fields are \<^verbatim>\<open>null\<close>, or the user name is a
  string and the avatar is the template applied to it.
\<close>

definition avatarConsistent :: "obj \<Rightarrow> bool" where
  "avatarConsistent speaker =
     (case getProp speaker ''githubUsername'' of
        Some JNull \<Rightarrow> getProp speaker ''githubAvatar'' = Some JNull
      | Some (JStr u) \<Rightarrow>
          getProp speaker ''githubAvatar'' = Some (JStr (''https://github.com/'' @ u @ ''.png''))
      | _ \<Rightarrow> False)"

text \<open>An override object that gives neither GitHub field a value.\<close>

definition leavesGithub :: "obj \<Rightarrow> bool" where
  "leavesGithub ob =
     list_all (\<lambda>(k, v). k \<noteq> ''githubUsername'' \<and> k \<noteq> ''githubAvatar'' \<or> v = JNull) ob"

definition overridesLeaveGithub :: "MeetupDataOverride option \<Rightarrow> bool" where
  "overridesLeaveGithub overrides =
     (case overrides of
        None \<Rightarrow> True
      | Some ov \<Rightarrow>
          (case ov_speakers ov of
             None \<Rightarrow> True
           | Some so \<Rightarrow> list_all (\<lambda>(n, ob). leavesGithub ob) so))"

section \<open>Fixtures\<close>

text \<open>
  The meetup of the end-to-end scenario (id 42, a session of Jane with the handle
  \<^verbatim>\<open>janedev\<close>, a session without speaker, the sponsor Acme without logo), with a
  session without session data, a speaker whose \<^verbatim>\<open>github_account\<close> is the empty
  string, and a second sponsor added.
\<close>

definition fixtureMeetup :: Meetup where
  "fixtureMeetup =
     \<lparr> meetup_id = 42, title = ''CSS night'', Date = ''2025-06-01'', Venue = ''Hall'',
       Location = ''Ebene'', Time = ''18:00'',
       sessions =
         [\<lparr> session_num = 1,
            Session_id = Some \<lparr> session_title = ''Subgrid'',
              session_speakers = Some \<lparr> speaker_id = ''s1'', speaker_name = ''Jane'',
                github_account = Some ''janedev'' \<rparr> \<rparr> \<rparr>,
          \<lparr> session_num = 2,
            Session_id = Some \<lparr> session_title = ''Break'', session_speakers = None \<rparr> \<rparr>,
          \<lparr> session_num = 3, Session_id = None \<rparr>,
          \<lparr> session_num = 4,
            Session_id = Some \<lparr> session_title = ''Nesting'',
              session_speakers = Some \<lparr> speaker_id = ''s2'', speaker_name = ''A'',
                github_account = Some [] \<rparr> \<rparr> \<rparr>],
       sponsors =
         [\<lparr> sponsor_num = 1,
            Sponsor_id = Some \<lparr> sponsor_data_id = ''p1'', Name = ''Acme'', Logo = None \<rparr> \<rparr>,
          \<lparr> sponsor_num = 2,
            Sponsor_id = Some \<lparr> sponsor_data_id = ''p2'', Name = ''Other'',
              Logo = Some \<lparr> filename_disk = ''other.png'' \<rparr> \<rparr> \<rparr>] \<rparr>"

definition fixtureConfig :: Config where
  "fixtureConfig = \<lparr> meetupId = 42, speakerExtraFields = [''company'', ''jobtitle''] \<rparr>"

text \<open>A data set with the speaker of the merge example and an extracted sponsor.\<close>

definition fixtureData :: MeetupData where
  "fixtureData =
     \<lparr> meetup = [(''id'', JNum 42), (''title'', JStr ''CSS night''), (''venue'', JStr ''Hall'')],
       speakers = [[(''name'', JStr ''A''), (''company'', JNull)],
                   [(''name'', JStr ''B''), (''company'', JNull)]],
       sponsor = Some [(''name'', JStr ''Acme''), (''logo'', JNull)] \<rparr>"



definition nullOverrides :: MeetupDataOverride where
  "nullOverrides =
     \<lparr> ov_meetup = Some [(''title'', JNull)],
       ov_speakers = Some [(''A'', [(''company'', JNull), (''jobtitle'', JNull)])],
       ov_sponsor = Some [(''name'', JNull), (''logo'', JNull)] \<rparr>"

text \<open>
  An override document with the key \<^verbatim>\<open>__proto__\<close> in the meetup section and in the
  override of speaker A.
\<close>

definition protoOverrides :: MeetupDataOverride where
  "protoOverrides =
     \<lparr> ov_meetup = Some [(''__proto__'', JStr ''x'')],
       ov_speakers = Some [(''A'', [(''__proto__'', JStr ''x'')])],
       ov_sponsor = None \<rparr>"

definition usernameOverrides :: MeetupDataOverride where
  "usernameOverrides =
     \<lparr> ov_meetup = None,
       ov_speakers = Some [(''A'', [(''githubUsername'', JStr ''octocat'')])],
       ov_sponsor = None \<rparr>"

definition companyOverrides :: MeetupDataOverride where
  "companyOverrides =
     \<lparr> ov_meetup = None,
       ov_speakers = Some [(''Jane'', [(''company'', JStr ''Acme''), (''githubAvatar'', JNull)])],
       ov_sponsor = None \<rparr>"

definition sponsorOverrides :: MeetupDataOverride where
  "sponsorOverrides =
     \<lparr> ov_meetup = None, ov_speakers = None,
       ov_sponsor = Some [(''name'', JStr ''Acme''), (''logo'', JStr ''acme.svg'')] \<rparr>"

text \<open>A printer and a parser for the fixtures: the parser reads the printed template back.\<close>

definition fixtureStringify :: printer where
  "fixtureStringify t = ''template''"

definition fixtureParse :: parser where
  "fixtureParse content =
     (if content = ''template''
      then Parsed (Some (overrideTemplate [''Jane'', ''A''] [''company'', ''jobtitle'']))
      else SyntaxError)"

section \<open>Objects: writing, copying, filtering\<close>

lemma map_of_setProp: "map_of (setProp k v ps) = (map_of ps)(k \<mapsto> v)"
  by (induction ps) (auto simp: fun_eq_iff)

lemma keys_setProp: "map fst (setProp k v ps) = (if k \<in> set (map fst ps) then map fst ps else map fst ps @ [k])"
  by (induction ps) force+

lemma setProp_fresh: "k \<notin> fst ` set ps \<Longrightarrow> setProp k v ps = ps @ [(k, v)]"
  by (induction ps) auto

lemma distinct_setProp: "distinct (map fst ps) \<Longrightarrow> distinct (map fst (setProp k v ps))"
  by (simp add: keys_setProp)

lemma set_setProp: "set (setProp k v ps) \<subseteq> insert (k, v) (set ps)"
  by (induction ps) (auto split: if_splits)


lemma fold_setProp_map_of:
  "map_of (fold (\<lambda>(k, v) acc. setProp (g k) v acc) es init)
     = map_of init ++ map_of (rev (map (\<lambda>(k, v). (g k, v)) es))"
proof (induction es arbitrary: init)
  case Nil
  show ?case by simp
next
  case (Cons e es)
  obtain k v where e: "e = (k, v)" by (cases e)
  show ?case
    by (simp add: e Cons.IH map_of_setProp fun_eq_iff map_add_def split: option.splits)
qed

lemma fold_setProp_append:
  "distinct (map fst (init @ es)) \<Longrightarrow> fold (\<lambda>(k, v) acc. setProp k v acc) es init = init @ es"
proof (induction es arbitrary: init)
  case Nil
  show ?case by simp
next
  case (Cons e es)
  obtain k v where e: "e = (k, v)" by (cases e)
  from Cons.prems have fresh: "k \<notin> fst ` set init" and d: "distinct (map fst ((init @ [(k, v)]) @ es))"
    by (auto simp: e)
  show ?case
    using Cons.IH [OF d] by (simp add: e setProp_fresh [OF fresh])
qed

lemma fold_setProp_set:
  "set (fold (\<lambda>(k, v) acc. setProp (g k) v acc) es init)
     \<subseteq> set init \<union> (\<lambda>(k, v). (g k, v)) ` set es"
proof (induction es arbitrary: init)
  case Nil
  show ?case by simp
next
  case (Cons e es)
  obtain k v where e: "e = (k, v)" by (cases e)
  show ?case
    using Cons.IH [of "setProp (g k) v init"] set_setProp [of "g k" v init]
    by (auto simp: e)
qed

lemma fold_setProp_Nil:
  "fold (\<lambda>(k, v) acc. setProp (g k) v acc) es [] = [] \<longleftrightarrow> es = []"
proof (cases es)
  case Nil
  then show ?thesis by simp
next
  case (Cons e es')
  obtain k v where e: "e = (k, v)" by (cases e)
  have "map_of (fold (\<lambda>(k, v) acc. setProp (g k) v acc) es []) \<noteq> Map.empty"
    unfolding fold_setProp_map_of by (simp add: Cons e)
  then show ?thesis by (auto simp: Cons)
qed

text \<open>Plain assignments: what a loop of them leaves as own properties.\<close>

lemma snd_assignProp:
  "snd (assignProp keeps k v st) = snd st \<or> snd (assignProp keeps k v st) = setProp k v (snd st)"
  by (cases st) (simp add: assignProp_def)

lemma assignProp_distinct:
  "distinct (map fst (snd st)) \<Longrightarrow> distinct (map fst (snd (assignProp keeps k v st)))"
  using snd_assignProp [of keeps k v st] distinct_setProp [of "snd st" k v] by auto

lemma assignProp_set: "set (snd (assignProp keeps k v st)) \<subseteq> insert (k, v) (set (snd st))"
  using snd_assignProp [of keeps k v st] set_setProp [of k v "snd st"] by auto


lemma fold_assignProp_distinct:
  "distinct (map fst (snd st)) \<Longrightarrow>
   distinct (map fst (snd (fold (\<lambda>(k, v) acc. assignProp keeps (g k) v acc) es st)))"
proof (induction es arbitrary: st)
  case Nil
  then show ?case by simp
next
  case (Cons e es)
  obtain k v where e: "e = (k, v)" by (cases e)
  show ?case
    using Cons.IH [OF assignProp_distinct [OF Cons.prems, of keeps "g k" v]] by (simp add: e)
qed

lemma fold_assignProp_set:
  "set (snd (fold (\<lambda>(k, v) acc. assignProp keeps (g k) v acc) es st))
     \<subseteq> set (snd st) \<union> (\<lambda>(k, v). (g k, v)) ` set es"
proof (induction es arbitrary: st)
  case Nil
  show ?case by simp
next
  case (Cons e es)
  obtain k v where e: "e = (k, v)" by (cases e)
  show ?case
    using Cons.IH [of "assignProp keeps (g k) v st"] assignProp_set [of keeps "g k" v st]
    by (auto simp: e)
qed





lemma getProp_spread:
  assumes "isObject a"
  shows "getProp (spread a b) k = (case map_of (rev b) k of None \<Rightarrow> getProp a k | Some v \<Rightarrow> Some v)"
proof -
  have "fold (\<lambda>(k, v) acc. setProp k v acc) a [] = a"
    using assms fold_setProp_append [of "[]" a] by (simp add: isObject_def)
  then have "map_of (spread a b) = map_of a ++ map_of (rev b)"
    using fold_setProp_map_of [of "\<lambda>k. k" b a] by (simp add: spread_def)
  then show ?thesis
    by (simp add: getProp_def map_add_def split: option.splits)
qed





lemma removeNulls_Nil: "removeNulls ob = [] \<longleftrightarrow> nullOnly ob"
proof -
  have "removeNulls ob = [] \<longleftrightarrow> filter (\<lambda>(_, v). v \<noteq> JNull) ob = []"
    using fold_setProp_Nil [of "\<lambda>k. k" "filter (\<lambda>(_, v). v \<noteq> JNull) ob"]
    by (simp add: removeNulls_def fromEntries_def)
  also have "\<dots> \<longleftrightarrow> nullOnly ob"
    by (auto simp: nullOnly_def filter_empty_conv list_all_iff)
  finally show ?thesis .
qed




lemma set_normalizeFieldNames: "set (normalizeFieldNames ob) \<subseteq> set (renamedFields ob)"
  using fold_assignProp_set [of setterKeepsAccessor normalizedKey ob "(True, [])"]
  by (simp add: normalizeFieldNames_def renamedFields_def)


lemma nullOnly_normalizeFieldNames: "nullOnly ob \<Longrightarrow> nullOnly (normalizeFieldNames ob)"
  using set_normalizeFieldNames [of ob]
  by (fastforce simp: nullOnly_def renamedFields_def list_all_iff)

section \<open>The three sections after \<open>applyOverrides\<close>\<close>

lemma meetup_applyOverrides:
  "meetup (applyOverrides d (Some ov)) =
     (case ov_meetup ov of
        None \<Rightarrow> meetup d
      | Some mo \<Rightarrow> if removeNulls mo \<noteq> [] then spread (meetup d) (removeNulls mo) else meetup d)"
  by (simp add: applyOverrides_def Let_def split: option.splits)

lemma speakers_applyOverrides:
  "speakers (applyOverrides d (Some ov)) =
     (case ov_speakers ov of
        None \<Rightarrow> speakers d
      | Some so \<Rightarrow> map (overrideSpeaker so) (speakers d))"
  by (simp add: applyOverrides_def Let_def split: option.splits)

lemma sponsor_applyOverrides:
  "sponsor (applyOverrides d (Some ov)) =
     (case ov_sponsor ov of
        None \<Rightarrow> sponsor d
      | Some spo \<Rightarrow>
          (case sponsor d of
             None \<Rightarrow> None
           | Some s \<Rightarrow> Some (if removeNulls spo \<noteq> [] then spread s (removeNulls spo) else s)))"
  by (simp add: applyOverrides_def Let_def split: option.splits)

lemma overrideSpeaker_nullOnly:
  assumes "list_all (\<lambda>(n, ob). nullOnly ob) so"
  shows "overrideSpeaker so speaker = speaker"
proof -
  have "removeNulls (normalizeFieldNames ob) = []" if "map_of so n = Some ob" for n ob
  proof -
    from that have "(n, ob) \<in> set so" by (rule map_of_SomeD)
    with assms have "nullOnly ob" by (auto simp: list_all_iff)
    then show ?thesis by (simp add: removeNulls_Nil nullOnly_normalizeFieldNames)
  qed
  then show ?thesis
    by (simp add: overrideSpeaker_def Let_def split: option.splits)
qed


lemma applyOverrides_onlyNulls:
  "onlyNulls ov \<Longrightarrow> applyOverrides d (Some ov) = d"
proof -
  assume nulls: "onlyNulls ov"
  have m: "meetup (applyOverrides d (Some ov)) = meetup d"
    using nulls by (auto simp: meetup_applyOverrides onlyNulls_def removeNulls_Nil split: option.splits)
  have s: "speakers (applyOverrides d (Some ov)) = speakers d"
    using nulls
    by (auto simp: speakers_applyOverrides onlyNulls_def overrideSpeaker_nullOnly map_idI
        split: option.splits)
  have p: "sponsor (applyOverrides d (Some ov)) = sponsor d"
    using nulls by (auto simp: sponsor_applyOverrides onlyNulls_def removeNulls_Nil split: option.splits)
  show ?thesis
    using m s p by (simp add: MeetupData.equality)
qed

section \<open>Claims about the merge\<close>

text \<open>
  C9. For every \<^verbatim>\<open>MeetupData\<close> whose sponsor is \<^verbatim>\<open>null\<close> and every override
  document (or none), \<open>applyOverrides\<close> leaves the sponsor \<^verbatim>\<open>null\<close>: a sponsor
  section of the overrides never creates a sponsor.
\<close>

theorem null_sponsor_stays_null:
  "sponsor d = None \<Longrightarrow> sponsor (applyOverrides d overrides) = None"
proof (cases overrides)
  case None
  assume "sponsor d = None"
  with None show ?thesis by (simp add: applyOverrides_def)
next
  case (Some ov)
  assume "sponsor d = None"
  with Some show ?thesis by (simp add: sponsor_applyOverrides split: option.splits)
qed

theorem null_sponsor_stays_null_witness:
  "sponsor (fixtureData\<lparr>sponsor := None\<rparr>) = None \<and>
   ov_sponsor sponsorOverrides = Some [(''name'', JStr ''Acme''), (''logo'', JStr ''acme.svg'')] \<and>
   sponsor (applyOverrides (fixtureData\<lparr>sponsor := None\<rparr>) (Some sponsorOverrides)) = None"
  using null_sponsor_stays_null [of "fixtureData\<lparr>sponsor := None\<rparr>" "Some sponsorOverrides"]
  by (simp add: sponsorOverrides_def)

text \<open>
  C2. Applying an override document all of whose field values, in the meetup section, in
  every speaker entry and in the sponsor section, are \<^verbatim>\<open>null\<close> gives back the
  unmerged input.
\<close>

theorem null_overrides_change_nothing:
  "onlyNulls ov \<Longrightarrow> applyOverrides d (Some ov) = d"
  by (rule applyOverrides_onlyNulls)

theorem null_overrides_change_nothing_witness:
  "onlyNulls nullOverrides \<and> applyOverrides fixtureData (Some nullOverrides) = fixtureData"
proof -
  have h: "onlyNulls nullOverrides"
    by (simp add: onlyNulls_def nullOverrides_def nullOnly_def)
  show ?thesis
    using h null_overrides_change_nothing [OF h, of fixtureData] by simp
qed

section \<open>Claims about the extraction\<close>

lemma speakers_of_sessions:
  "map speakerOfSession (filter hasSpeaker ss) =
     concat (map (\<lambda>s. case Session_id s of
                          None \<Rightarrow> []
                        | Some sd \<Rightarrow>
                            (case session_speakers sd of
                               None \<Rightarrow> []
                             | Some sp \<Rightarrow> [speakerObject sd sp])) ss)"
  by (induction ss) (auto simp: hasSpeaker_def speakerOfSession_def split: option.splits)

text \<open>
  C4. The extracted speaker list is the concatenation, in session order, of what each
  session contributes: one entry when the session has session data with a nested speaker,
  nothing otherwise.
\<close>

theorem speakers_one_per_session_with_speaker:
  "extractSpeakers m =
     concat (map (\<lambda>s. case Session_id s of
                          None \<Rightarrow> []
                        | Some sd \<Rightarrow>
                            (case session_speakers sd of
                               None \<Rightarrow> []
                             | Some sp \<Rightarrow> [speakerObject sd sp])) (sessions m))"
  by (simp add: extractSpeakers_def speakers_of_sessions)

theorem speakers_one_per_session_with_speaker_witness:
  "extractSpeakers fixtureMeetup =
     [[(''name'', JStr ''Jane''), (''talkTitle'', JStr ''Subgrid''),
       (''githubUsername'', JStr ''janedev''),
       (''githubAvatar'', JStr ''https://github.com/janedev.png'')],
      [(''name'', JStr ''A''), (''talkTitle'', JStr ''Nesting''),
       (''githubUsername'', JNull), (''githubAvatar'', JNull)]]"
  using speakers_one_per_session_with_speaker [of fixtureMeetup]
  by (simp add: fixtureMeetup_def speakerObject_def jstr_def orNull_def getGithubAvatar_def)

text \<open>
  C10. A session whose nested speaker has the empty string as \<^verbatim>\<open>github_account\<close>
  yields an extracted speaker with \<^verbatim>\<open>githubUsername\<close> and \<^verbatim>\<open>githubAvatar\<close> both
  \<^verbatim>\<open>null\<close>.
\<close>

theorem empty_github_account_is_no_username:
  assumes "session \<in> set (sessions m)"
    and "Session_id session = Some sd"
    and "session_speakers sd = Some sp"
    and "github_account sp = Some []"
  shows "speakerObject sd sp \<in> set (extractSpeakers m) \<and>
         getProp (speakerObject sd sp) ''name'' = Some (JStr (speaker_name sp)) \<and>
         getProp (speakerObject sd sp) ''githubUsername'' = Some JNull \<and>
         getProp (speakerObject sd sp) ''githubAvatar'' = Some JNull"
proof -
  have "hasSpeaker session" and "speakerOfSession session = speakerObject sd sp"
    using assms by (simp_all add: hasSpeaker_def speakerOfSession_def)
  then have "speakerObject sd sp \<in> set (extractSpeakers m)"
    using assms(1) by (force simp: extractSpeakers_def)
  moreover have "getProp (speakerObject sd sp) ''name'' = Some (JStr (speaker_name sp))"
    by (simp add: speakerObject_def getProp_def)
  moreover have "getProp (speakerObject sd sp) ''githubUsername'' = Some JNull"
    using assms(4) by (simp add: speakerObject_def getProp_def orNull_def jstr_def)
  moreover have "getProp (speakerObject sd sp) ''githubAvatar'' = Some JNull"
    using assms(4) by (simp add: speakerObject_def getProp_def orNull_def getGithubAvatar_def jstr_def)
  ultimately show ?thesis by simp
qed

theorem empty_github_account_is_no_username_witness:
  "sessions fixtureMeetup ! 3 \<in> set (sessions fixtureMeetup) \<and>
   Session_id (sessions fixtureMeetup ! 3) =
     Some \<lparr> session_title = ''Nesting'',
            session_speakers = Some \<lparr> speaker_id = ''s2'', speaker_name = ''A'',
              github_account = Some [] \<rparr> \<rparr> \<and>
   [(''name'', JStr ''A''), (''talkTitle'', JStr ''Nesting''),
    (''githubUsername'', JNull), (''githubAvatar'', JNull)] \<in> set (extractSpeakers fixtureMeetup)"
proof -
  let ?sp = "\<lparr> speaker_id = ''s2'', speaker_name = ''A'', github_account = Some [] \<rparr>"
  let ?sd = "\<lparr> session_title = ''Nesting'', session_speakers = Some ?sp \<rparr>"
  have h1: "sessions fixtureMeetup ! 3 \<in> set (sessions fixtureMeetup)"
    by (simp add: fixtureMeetup_def)
  have h2: "Session_id (sessions fixtureMeetup ! 3) = Some ?sd"
    by (simp add: fixtureMeetup_def)
  have h3: "session_speakers ?sd = Some ?sp" by simp
  have h4: "github_account ?sp = Some []" by simp
  show ?thesis
    using h1 h2 empty_github_account_is_no_username [OF h1 h2 h3 h4]
    by (simp add: speakerObject_def jstr_def orNull_def getGithubAvatar_def)
qed

text \<open>
  C6. Only the first entry of the sponsor list is used. An empty list, or a first entry
  without nested sponsor object, gives the sponsor \<^verbatim>\<open>null\<close>; otherwise the sponsor has
  the name of that entry and, as logo, the asset URL of the stored file name, or
  \<^verbatim>\<open>null\<close> when there is no logo. The entries after the first never matter.
\<close>

theorem sponsor_from_first_entry:
  "(sponsors m = [] \<longrightarrow> extractSponsor m = None) \<and>
   (sponsors m = first # rest \<longrightarrow>
      extractSponsor m =
        (case Sponsor_id first of
           None \<Rightarrow> None
         | Some sd \<Rightarrow>
             Some [(''name'', JStr (Name sd)),
                   (''logo'', (case Logo sd of
                                None \<Rightarrow> JNull
                              | Some l \<Rightarrow> JStr (''https://frontend.mu/assets/'' @ filename_disk l)))]) \<and>
      extractSponsor m = extractSponsor (m\<lparr>sponsors := [first]\<rparr>))"
  by (simp add: extractSponsor_def firstSponsor_def getSponsorLogoUrl_def split: option.splits)

theorem sponsor_from_first_entry_witness:
  "sponsors (fixtureMeetup\<lparr>sponsors := []\<rparr>) = [] \<and>
   extractSponsor (fixtureMeetup\<lparr>sponsors := []\<rparr>) = None \<and>
   sponsors fixtureMeetup = hd (sponsors fixtureMeetup) # tl (sponsors fixtureMeetup) \<and>
   extractSponsor fixtureMeetup = Some [(''name'', JStr ''Acme''), (''logo'', JNull)] \<and>
   extractSponsor (fixtureMeetup\<lparr>sponsors := rev (sponsors fixtureMeetup)\<rparr>) =
     Some [(''name'', JStr ''Other''), (''logo'', JStr ''https://frontend.mu/assets/other.png'')]"
proof -
  have e: "sponsors (fixtureMeetup\<lparr>sponsors := []\<rparr>) = []" by simp
  have c: "sponsors fixtureMeetup = hd (sponsors fixtureMeetup) # tl (sponsors fixtureMeetup)"
    by (simp add: fixtureMeetup_def)
  have r: "sponsors (fixtureMeetup\<lparr>sponsors := rev (sponsors fixtureMeetup)\<rparr>) =
             sponsors fixtureMeetup ! 1 # [sponsors fixtureMeetup ! 0]"
    by (simp add: fixtureMeetup_def)
  show ?thesis
    using e c
      sponsor_from_first_entry [of "fixtureMeetup\<lparr>sponsors := []\<rparr>"]
      sponsor_from_first_entry [of fixtureMeetup "hd (sponsors fixtureMeetup)" "tl (sponsors fixtureMeetup)"]
      sponsor_from_first_entry [of "fixtureMeetup\<lparr>sponsors := rev (sponsors fixtureMeetup)\<rparr>"
        "sponsors fixtureMeetup ! 1" "[sponsors fixtureMeetup ! 0]"] r
    by (simp add: fixtureMeetup_def)
qed

section \<open>Avatar consistency\<close>

lemma isObject_speakerObject: "isObject (speakerObject sd sp)"
  by (simp add: isObject_def speakerObject_def)

lemma avatarConsistent_speakerObject: "avatarConsistent (speakerObject sd sp)"
  by (simp add: avatarConsistent_def speakerObject_def getProp_def orNull_def
      getGithubAvatar_def jstr_def split: option.splits)

lemma extracted_speaker:
  "speaker \<in> set (extractSpeakers m) \<Longrightarrow> \<exists>sd sp. speaker = speakerObject sd sp"
  by (auto simp: speakers_of_sessions extractSpeakers_def split: option.splits)

lemma avatarConsistent_cong:
  "getProp b ''githubUsername'' = getProp a ''githubUsername'' \<Longrightarrow>
   getProp b ''githubAvatar'' = getProp a ''githubAvatar'' \<Longrightarrow>
   avatarConsistent b = avatarConsistent a"
  by (simp add: avatarConsistent_def split: option.splits jval.splits)

lemma leavesGithub_valid:
  assumes "leavesGithub ob" and "k = ''githubUsername'' \<or> k = ''githubAvatar''"
  shows "map_of (rev (removeNulls (normalizeFieldNames ob))) k = None"
proof -
  have "k \<notin> fst ` set (removeNulls (normalizeFieldNames ob))"
  proof
    assume "k \<in> fst ` set (removeNulls (normalizeFieldNames ob))"
    then obtain v where "(k, v) \<in> set (removeNulls (normalizeFieldNames ob))" by auto
    then have "(k, v) \<in> set (normalizeFieldNames ob)" and v: "v \<noteq> JNull"
      using fold_setProp_set [of "\<lambda>k. k" "filter (\<lambda>(_, v). v \<noteq> JNull) (normalizeFieldNames ob)" "[]"]
      by (auto simp: removeNulls_def fromEntries_def)
    then obtain k0 where "(k0, v) \<in> set ob" and "normalizedKey k0 = k"
      using set_normalizeFieldNames [of ob]
      by (auto simp: renamedFields_def)
    with assms(2) have "(k, v) \<in> set ob"
      by (auto simp: normalizedKey_def split: if_splits)
    with assms show False
      using v by (auto simp: leavesGithub_def list_all_iff)
  qed
  then show ?thesis
    by (simp add: map_of_eq_None_iff)
qed

lemma overrideSpeaker_leavesGithub:
  assumes so: "list_all (\<lambda>(n, ob). leavesGithub ob) so" and sp: "isObject speaker"
    and k: "k = ''githubUsername'' \<or> k = ''githubAvatar''"
  shows "getProp (overrideSpeaker so speaker) k = getProp speaker k"
proof -
  have "getProp (spread speaker (removeNulls (normalizeFieldNames ob))) k = getProp speaker k"
    if "map_of so n = Some ob" for n ob
  proof -
    from that have "(n, ob) \<in> set so" by (rule map_of_SomeD)
    with so have "leavesGithub ob" by (auto simp: list_all_iff)
    then show ?thesis
      by (simp add: getProp_spread [OF sp] leavesGithub_valid [OF _ k])
  qed
  then show ?thesis
    by (simp add: overrideSpeaker_def Let_def split: option.splits)
qed

text \<open>
  C5 as stated fails: an override of \<^verbatim>\<open>githubUsername\<close> alone changes the user name
  of the produced speaker and leaves its avatar as extracted.
\<close>

theorem avatar_consistency_counterexample:
  "getProp (speakers (applyOverrides (extractMeetupData fixtureMeetup) (Some usernameOverrides)) ! 1)
      ''githubUsername'' = Some (JStr ''octocat'') \<and>
   getProp (speakers (applyOverrides (extractMeetupData fixtureMeetup) (Some usernameOverrides)) ! 1)
      ''githubAvatar'' = Some JNull \<and>
   \<not> list_all avatarConsistent
       (speakers (applyOverrides (extractMeetupData fixtureMeetup) (Some usernameOverrides)))"
  by (simp add: speakers_applyOverrides usernameOverrides_def extractMeetupData_def
      extractSpeakers_def hasSpeaker_def speakerOfSession_def fixtureMeetup_def speakerObject_def jstr_def orNull_def
      getGithubAvatar_def overrideSpeaker_def speakerName_def getProp_def
      normalizeFieldNames_def assignProp_def normalizedKey_def removeNulls_def fromEntries_def
      spread_def
      avatarConsistent_def)

text \<open>
  C5, amended. Every extracted speaker is avatar-consistent, and so is every speaker of
  the produced data (the extracted data with the overrides applied) when no speaker
  override gives \<^verbatim>\<open>githubUsername\<close> or \<^verbatim>\<open>githubAvatar\<close> a non-null value, in
  particular when there are no overrides.
\<close>

theorem avatar_consistent_without_github_overrides:
  assumes "overridesLeaveGithub overrides"
  shows "list_all avatarConsistent (extractSpeakers m) \<and>
         list_all avatarConsistent (speakers (applyOverrides (extractMeetupData m) overrides))"
proof -
  have ex: "avatarConsistent speaker \<and> isObject speaker" if "speaker \<in> set (extractSpeakers m)"
    for speaker
    using extracted_speaker [OF that]
    by (auto simp: avatarConsistent_speakerObject isObject_speakerObject)
  have "avatarConsistent (overrideSpeaker so speaker)"
    if "speaker \<in> set (extractSpeakers m)" and "list_all (\<lambda>(n, ob). leavesGithub ob) so"
    for so speaker
    using ex [OF that(1)] overrideSpeaker_leavesGithub [OF that(2)]
      avatarConsistent_cong [of "overrideSpeaker so speaker" speaker]
    by simp
  note kept = this
  have "list_all avatarConsistent (speakers (applyOverrides (extractMeetupData m) overrides))"
  proof (cases overrides)
    case None
    then show ?thesis
      using ex by (simp add: applyOverrides_def extractMeetupData_def list_all_iff)
  next
    case (Some ov)
    then show ?thesis
      using assms ex kept
      by (auto simp: speakers_applyOverrides extractMeetupData_def overridesLeaveGithub_def
          list_all_iff split: option.splits)
  qed
  then show ?thesis
    using ex by (simp add: list_all_iff)
qed

theorem avatar_consistent_without_github_overrides_witness:
  "overridesLeaveGithub (Some companyOverrides) \<and>
   getProp (speakers (applyOverrides (extractMeetupData fixtureMeetup) (Some companyOverrides)) ! 0)
      ''company'' = Some (JStr ''Acme'') \<and>
   list_all avatarConsistent
     (speakers (applyOverrides (extractMeetupData fixtureMeetup) (Some companyOverrides)))"
proof -
  have h: "overridesLeaveGithub (Some companyOverrides)"
    by (simp add: overridesLeaveGithub_def companyOverrides_def leavesGithub_def)
  have c: "getProp (speakers (applyOverrides (extractMeetupData fixtureMeetup) (Some companyOverrides)) ! 0)
      ''company'' = Some (JStr ''Acme'')"
    by (simp add: speakers_applyOverrides companyOverrides_def extractMeetupData_def
      extractSpeakers_def hasSpeaker_def speakerOfSession_def fixtureMeetup_def speakerObject_def jstr_def orNull_def
      getGithubAvatar_def overrideSpeaker_def speakerName_def getProp_def
      normalizeFieldNames_def assignProp_def normalizedKey_def removeNulls_def fromEntries_def
      spread_def)
  show ?thesis
    using h c avatar_consistent_without_github_overrides [OF h, of fixtureMeetup] by simp
qed

section \<open>The override file: template and read\<close>

lemma speakerTemplate_entries:
  "isObject (speakerTemplate extraFields) \<and> nullOnly (speakerTemplate extraFields)"
proof -
  have t: "speakerTemplate extraFields =
             snd (fold (\<lambda>(k, v) acc. assignProp setterKeepsAccessor k v acc)
                    (map (\<lambda>f. (f, JNull)) extraFields) (True, []))"
    by (simp add: speakerTemplate_def fold_map comp_def)
  have "isObject (speakerTemplate extraFields)"
    unfolding t isObject_def
    using fold_assignProp_distinct [of "(True, [])" setterKeepsAccessor "\<lambda>k. k"] by simp
  moreover have "nullOnly (speakerTemplate extraFields)"
    unfolding t nullOnly_def list_all_iff
    using fold_assignProp_set [of setterKeepsAccessor "\<lambda>k. k"
        "map (\<lambda>f. (f, JNull)) extraFields" "(True, [])"]
    by auto
  ultimately show ?thesis by simp
qed

lemma spread_empty: "isObject b \<Longrightarrow> spread [] b = b"
  using fold_setProp_append [of "[]" b] by (simp add: spread_def isObject_def)

lemma template_speakers:
  "\<exists>so. ov_speakers (overrideTemplate names extraFields) = Some so \<and>
        (\<forall>(n, entry) \<in> set so. entry = speakerTemplate extraFields)"
proof -
  let ?E = "spread [] (speakerTemplate extraFields)"
  let ?so = "snd (fold (\<lambda>(k, v) acc. assignProp (\<lambda>entry. setterKeepsAccessor (JObj entry)) k v acc)
                    (map (\<lambda>n. (n, ?E)) names) (True, []))"
  have E: "?E = speakerTemplate extraFields"
    by (simp add: spread_empty speakerTemplate_entries)
  have so: "ov_speakers (overrideTemplate names extraFields) = Some ?so"
    by (simp add: overrideTemplate_def fold_map comp_def)
  have "\<forall>(n, entry) \<in> set ?so. entry = speakerTemplate extraFields"
    using fold_assignProp_set [of "\<lambda>entry. setterKeepsAccessor (JObj entry)" "\<lambda>k. k"
        "map (\<lambda>n. (n, ?E)) names" "(True, [])"] E
    by auto
  then show ?thesis
    using so by blast
qed

lemma onlyNulls_overrideTemplate: "onlyNulls (overrideTemplate names extraFields)"
proof -
  obtain so where "ov_speakers (overrideTemplate names extraFields) = Some so"
    and "\<forall>(n, entry) \<in> set so. entry = speakerTemplate extraFields"
    using template_speakers [of names extraFields] by blast
  moreover have "ov_meetup (overrideTemplate names extraFields) = Some []"
    and "ov_sponsor (overrideTemplate names extraFields) = Some []"
    by (simp_all add: overrideTemplate_def)
  ultimately show ?thesis
    using speakerTemplate_entries [of extraFields]
    by (auto simp: onlyNulls_def list_all_iff nullOnly_def)
qed

text \<open>
  C8. The claim holds for the first half: an existing override file is left as it is.
  The scaffold written when there is none does not hold every configured extra field:
  for the extra field \<^verbatim>\<open>__proto__\<close> the assignment
  \<^verbatim>\<open>speakerTemplate[field] = null\<close> sets the prototype and creates no key, so the
  entry of speaker A lacks it; likewise a speaker named \<^verbatim>\<open>__proto__\<close> gets no entry
  from \<^verbatim>\<open>acc[name] = ...\<close>.
\<close>

theorem template_drops_proto_key:
  "createOverrideTemplate stringify [''A''] [''company'', ''__proto__''] (Some ''{}'') = Some ''{}'' \<and>
   createOverrideTemplate stringify [''A''] [''company'', ''__proto__''] None
     = Some (stringify (overrideTemplate [''A''] [''company'', ''__proto__''])) \<and>
   overrideTemplate [''A''] [''company'', ''__proto__''] =
     \<lparr> ov_meetup = Some [], ov_speakers = Some [(''A'', [(''company'', JNull)])],
       ov_sponsor = Some [] \<rparr> \<and>
   overrideTemplate [''A'', ''__proto__''] [''company''] =
     \<lparr> ov_meetup = Some [], ov_speakers = Some [(''A'', [(''company'', JNull)])],
       ov_sponsor = Some [] \<rparr>"
  by (simp add: createOverrideTemplate_def overrideTemplate_def speakerTemplate_def
      assignProp_def setterKeepsAccessor_def spread_def)

lemma speakerName_speakerObject: "speakerName (speakerObject sd sp) = Some (speaker_name sp)"
  by (simp add: speakerName_def speakerObject_def getProp_def)

text \<open>
  C7. A missing override file is read as "no overrides". A file whose content does not
  parse is read as "no overrides" as well, and the run then finishes: it leaves the file
  and saves the extracted data unmerged. The run on a missing file writes the template,
  reads it back and, when the parser returns what was printed, saves the unmerged data
  too.
\<close>

theorem malformed_overrides_are_no_overrides:
  "readOverrides parse None = None \<and>
   (parse content = SyntaxError \<longrightarrow>
      readOverrides parse (Some content) = None \<and>
      (find (\<lambda>m. meetup_id m = meetupId config) meetupsData = Some m \<longrightarrow>
         fetchMeetupData parse stringify config meetupsData (Some content) =
           Inr \<lparr> overrideFile = Some content, meetupData = extractMeetupData m \<rparr>)) \<and>
   (find (\<lambda>m. meetup_id m = meetupId config) meetupsData = Some m \<and>
    parse (stringify (overrideTemplate (speakerNames (extractSpeakers m)) (speakerExtraFields config)))
      = Parsed (Some (overrideTemplate (speakerNames (extractSpeakers m)) (speakerExtraFields config))) \<longrightarrow>
      fetchMeetupData parse stringify config meetupsData None =
        Inr \<lparr> overrideFile =
                Some (stringify (overrideTemplate (speakerNames (extractSpeakers m))
                                   (speakerExtraFields config))),
              meetupData = extractMeetupData m \<rparr>)"
proof -
  have "readOverrides parse None = None"
    by (simp add: readOverrides_def)
  moreover have "readOverrides parse (Some content) = None" if "parse content = SyntaxError"
    using that by (simp add: readOverrides_def)
  moreover have "fetchMeetupData parse stringify config meetupsData (Some content) =
           Inr \<lparr> overrideFile = Some content, meetupData = extractMeetupData m \<rparr>"
    if "parse content = SyntaxError"
      and "find (\<lambda>m. meetup_id m = meetupId config) meetupsData = Some m"
    using that
    by (simp add: fetchMeetupData_def createOverrideTemplate_def readOverrides_def
        applyOverrides_def)
  moreover have "fetchMeetupData parse stringify config meetupsData None =
        Inr \<lparr> overrideFile =
                Some (stringify (overrideTemplate (speakerNames (extractSpeakers m))
                                   (speakerExtraFields config))),
              meetupData = extractMeetupData m \<rparr>"
    if "find (\<lambda>m. meetup_id m = meetupId config) meetupsData = Some m"
      and "parse (stringify (overrideTemplate (speakerNames (extractSpeakers m)) (speakerExtraFields config)))
      = Parsed (Some (overrideTemplate (speakerNames (extractSpeakers m)) (speakerExtraFields config)))"
  proof -
    have "speakers (extractMeetupData m) = extractSpeakers m"
      by (simp add: extractMeetupData_def)
    then show ?thesis
      using that
      by (simp add: fetchMeetupData_def createOverrideTemplate_def readOverrides_def Let_def
          applyOverrides_onlyNulls onlyNulls_overrideTemplate)
  qed
  ultimately show ?thesis by blast
qed

theorem malformed_overrides_are_no_overrides_witness:
  "fixtureParse ''{speakers: {},}'' = SyntaxError \<and>
   find (\<lambda>m. meetup_id m = meetupId fixtureConfig) [fixtureMeetup] = Some fixtureMeetup \<and>
   readOverrides fixtureParse (Some ''{speakers: {},}'') = None \<and>
   fetchMeetupData fixtureParse fixtureStringify fixtureConfig [fixtureMeetup]
       (Some ''{speakers: {},}'') =
     Inr \<lparr> overrideFile = Some ''{speakers: {},}'',
           meetupData = extractMeetupData fixtureMeetup \<rparr> \<and>
   fetchMeetupData fixtureParse fixtureStringify fixtureConfig [fixtureMeetup] None =
     Inr \<lparr> overrideFile = Some ''template'', meetupData = extractMeetupData fixtureMeetup \<rparr>"
proof -
  have bad: "fixtureParse ''{speakers: {},}'' = SyntaxError"
    by (simp add: fixtureParse_def)
  have found: "find (\<lambda>m. meetup_id m = meetupId fixtureConfig) [fixtureMeetup] = Some fixtureMeetup"
    by (simp add: fixtureConfig_def fixtureMeetup_def)
  have names: "speakerNames (extractSpeakers fixtureMeetup) = [''Jane'', ''A'']"
    by (simp add: speakerNames_def extractSpeakers_def hasSpeaker_def speakerOfSession_def
        fixtureMeetup_def speakerName_speakerObject)
  have reread: "fixtureParse (fixtureStringify (overrideTemplate
                  (speakerNames (extractSpeakers fixtureMeetup)) (speakerExtraFields fixtureConfig)))
      = Parsed (Some (overrideTemplate (speakerNames (extractSpeakers fixtureMeetup))
                        (speakerExtraFields fixtureConfig)))"
    by (simp add: names fixtureParse_def fixtureStringify_def fixtureConfig_def)
  show ?thesis
    using bad found reread
      malformed_overrides_are_no_overrides
        [of fixtureParse "''{speakers: {},}''" fixtureConfig "[fixtureMeetup]" fixtureMeetup
          fixtureStringify]
    by (simp add: fixtureStringify_def)
qed

section \<open>Key normalization\<close>

text \<open>
  C3. The claim says that every key other than \<^verbatim>\<open>jobtitle\<close> passes through the
  normalization of a speaker override unchanged. The code renames \<^verbatim>\<open>jobtitle\<close> and
  keeps \<^verbatim>\<open>company\<close>, but the key \<^verbatim>\<open>__proto__\<close> does not pass: the assignment
  \<^verbatim>\<open>normalized[normalizedKey] = value\<close> creates no own property for it, so the field
  is gone before the merge and speaker A, whose override holds only that field, is returned
  as extracted. The meetup section, which is not normalized, merges the same field.
\<close>

theorem proto_key_dropped_by_normalization:
  "normalizeFieldNames [(''jobtitle'', JStr ''Eng''), (''__proto__'', JStr ''x''),
                        (''company'', JStr ''Acme'')]
     = [(''jobTitle'', JStr ''Eng''), (''company'', JStr ''Acme'')] \<and>
   normalizeFieldNames [(''__proto__'', JStr ''x'')] = [] \<and>
   speakerName (speakers fixtureData ! 0) = Some ''A'' \<and>
   ov_speakers protoOverrides = Some [(''A'', [(''__proto__'', JStr ''x'')])] \<and>
   speakers (applyOverrides fixtureData (Some protoOverrides)) ! 0 = speakers fixtureData ! 0 \<and>
   getProp (speakers (applyOverrides fixtureData (Some protoOverrides)) ! 0) ''__proto__'' = None \<and>
   ov_meetup protoOverrides = Some [(''__proto__'', JStr ''x'')] \<and>
   getProp (meetup (applyOverrides fixtureData (Some protoOverrides))) ''__proto__''
     = Some (JStr ''x'')"
  by (simp add: meetup_applyOverrides speakers_applyOverrides protoOverrides_def fixtureData_def
      overrideSpeaker_def speakerName_def getProp_def normalizeFieldNames_def assignProp_def
      setterKeepsAccessor_def normalizedKey_def removeNulls_def fromEntries_def spread_def)

section \<open>Merge precedence\<close>


lemma renamedFields_append: "renamedFields (xs @ ys) = renamedFields xs @ renamedFields ys"
  by (simp add: renamedFields_def)






end
